theory Spec2Isabelle
  imports Main "HOL-Library.Sublist"
begin

section \<open>Python values used by the comparison service\<close>

text \<open>
  A Python \<open>str\<close> is a sequence of code points. It is modelled as a \<open>string\<close> in which
  every \<open>char\<close> stands for the code point of the same number, U+0000 to U+00FF; the
  functions below are the Python string methods on that range.
\<close>

datatype py_error = ValueError | KeyError | TypeError | Raised string

definition ord :: "char \<Rightarrow> nat" where
  "ord c = of_char c"

definition isspace :: "char \<Rightarrow> bool" where
  \<comment> \<open>\<open>str.isspace\<close> of one character: TAB..CR, FS..US, SPACE, NEL, NBSP.\<close>
  "isspace c = (let n = ord c in
     (9 \<le> n \<and> n \<le> 13) \<or> (28 \<le> n \<and> n \<le> 32) \<or> n = 133 \<or> n = 160)"

definition strip :: "string \<Rightarrow> string" where
  \<comment> \<open>\<open>s.strip()\<close>: leading and trailing whitespace removed.\<close>
  "strip s = rev (dropWhile isspace (rev (dropWhile isspace s)))"

definition lower_char :: "char \<Rightarrow> char" where
  "lower_char c = (let n = ord c in
     if (65 \<le> n \<and> n \<le> 90) \<or> (192 \<le> n \<and> n \<le> 222 \<and> n \<noteq> 215)
     then char_of (n + 32) else c)"

definition lower :: "string \<Rightarrow> string" where
  "lower s = map lower_char s"

definition isdigit_char :: "char \<Rightarrow> bool" where
  \<comment> \<open>the characters of numeric type Digit or Decimal: 0..9 and the superscripts
      two, three and one (U+00B2, U+00B3, U+00B9).\<close>
  "isdigit_char c = (let n = ord c in
     (48 \<le> n \<and> n \<le> 57) \<or> n = 178 \<or> n = 179 \<or> n = 185)"

definition isdigit :: "string \<Rightarrow> bool" where
  \<comment> \<open>\<open>s.isdigit()\<close>: false on the empty string.\<close>
  "isdigit s = (s \<noteq> [] \<and> list_all isdigit_char s)"

fun substring_in :: "string \<Rightarrow> string \<Rightarrow> bool" where
  \<comment> \<open>\<open>needle in hay\<close> on two strings.\<close>
  "substring_in needle [] = (needle = [])"
| "substring_in needle (c # cs) = (prefix needle (c # cs) \<or> substring_in needle cs)"

subsection \<open>\<open>int(s)\<close> on a string\<close>

definition int_space :: "char \<Rightarrow> bool" where
  \<comment> \<open>the whitespace \<open>int()\<close> skips around the number.\<close>
  "int_space c = (let n = ord c in (9 \<le> n \<and> n \<le> 13) \<or> n = 32 \<or> n = 133 \<or> n = 160)"

definition ascii_digit :: "char \<Rightarrow> bool" where
  "ascii_digit c = (48 \<le> ord c \<and> ord c \<le> 57)"

fun digit_groups :: "string \<Rightarrow> bool" where
  \<comment> \<open>one or more decimal digits, with single underscores allowed between digits.\<close>
  "digit_groups [] = False"
| "digit_groups [c] = ascii_digit c"
| "digit_groups (c # d # cs) =
     (ascii_digit c \<and> (if d = CHR ''_'' then digit_groups cs else digit_groups (d # cs)))"

definition dec_value :: "string \<Rightarrow> nat" where
  "dec_value ds = foldl (\<lambda>acc c. 10 * acc + (ord c - 48)) 0 ds"

definition py_int :: "nat \<Rightarrow> string \<Rightarrow> py_error + int" where
  \<comment> \<open>\<open>int(s)\<close> in base 10. \<open>max_str_digits\<close> is the interpreter's
      \<open>sys.int_max_str_digits\<close> (0 switches the limit off; it is only consulted for
      more than 640 digits).\<close>
  "py_int max_str_digits s =
     (let t = rev (dropWhile int_space (rev (dropWhile int_space s)));
          neg = (t \<noteq> [] \<and> hd t = CHR ''-'');
          body = (if t \<noteq> [] \<and> (hd t = CHR ''-'' \<or> hd t = CHR ''+'') then tl t else t);
          ds = filter (\<lambda>c. c \<noteq> CHR ''_'') body
      in if \<not> digit_groups body then Inl ValueError
         else if 640 < length ds \<and> 0 < max_str_digits \<and> max_str_digits < length ds
         then Inl ValueError
         else Inr ((if neg then - 1 else 1) * int (dec_value ds)))"

section \<open>The CSV difference parser\<close>

text \<open>
  \<open>_parse_csv_for_summary_and_diffs\<close> reads the report through \<open>csv.reader\<close>. Its input
  here is what the reader yields: the list of rows of the file, each a list of column
  strings, the header row first.
\<close>

record parse_state =
  var_left :: int
  var_right :: int
  var_shared :: int
  grp_left :: int
  grp_right :: int
  grp_shared :: int
  attr_diffs :: int
  details :: "(string \<times> string \<times> string) list"

definition initial_state :: parse_state where
  "initial_state = \<lparr>var_left = 0, var_right = 0, var_shared = 0,
     grp_left = 0, grp_right = 0, grp_shared = 0, attr_diffs = 0, details = []\<rparr>"

definition bind_err :: "py_error + 'a \<Rightarrow> ('a \<Rightarrow> py_error + 'b) \<Rightarrow> py_error + 'b" where
  "bind_err r f = (case r of Inl e \<Rightarrow> Inl e | Inr x \<Rightarrow> f x)"

definition try_shared ::
  "nat \<Rightarrow> (int \<Rightarrow> parse_state \<Rightarrow> parse_state) \<Rightarrow> string \<Rightarrow> string \<Rightarrow> parse_state
     \<Rightarrow> py_error + parse_state" where
  \<comment> \<open>\<open>try: x = int(val_a) if val_a.isdigit() else int(val_b)\<close>
      \<open>except ValueError: pass\<close>\<close>
  "try_shared lim assign val_a val_b st =
     (case (if isdigit val_a then py_int lim val_a else py_int lim val_b) of
        Inr v \<Rightarrow> Inr (assign v st)
      | Inl e \<Rightarrow> (if e = ValueError then Inr st else Inl e))"

definition try_non_shared ::
  "nat \<Rightarrow> (int \<Rightarrow> parse_state \<Rightarrow> parse_state) \<Rightarrow> (int \<Rightarrow> parse_state \<Rightarrow> parse_state)
     \<Rightarrow> string \<Rightarrow> string \<Rightarrow> parse_state \<Rightarrow> py_error + parse_state" where
  \<comment> \<open>\<open>try: x = int(val_a) if val_a.isdigit() else 0\<close>
      \<open>     y = int(val_b) if val_b.isdigit() else 0\<close>
      \<open>except ValueError: pass\<close>: the first assignment stays when the second raises.\<close>
  "try_non_shared lim assign_left assign_right val_a val_b st =
     (case (if isdigit val_a then py_int lim val_a else Inr 0) of
        Inl e \<Rightarrow> (if e = ValueError then Inr st else Inl e)
      | Inr l \<Rightarrow>
         (case (if isdigit val_b then py_int lim val_b else Inr 0) of
            Inl e \<Rightarrow> (if e = ValueError then Inr (assign_left l st) else Inl e)
          | Inr r \<Rightarrow> Inr (assign_right r (assign_left l st))))"

definition mark_row :: "parse_state \<Rightarrow> string \<Rightarrow> string \<Rightarrow> string \<Rightarrow> string \<Rightarrow> parse_state" where
  \<comment> \<open>the \<open>if marker == "***":\<close> statement.\<close>
  "mark_row st info val_a val_b marker =
     (if marker = ''***'' then
        (let st' = st\<lparr>details := details st @ [(info, val_a, val_b)]\<rparr>
         in if substring_in ''attribute'' (lower info)
               \<or> info \<notin> set [''dtype'', ''dimensions'', ''shape'', ''chunksize'']
            then st'\<lparr>attr_diffs := attr_diffs st' + 1\<rparr> else st')
      else st)"

definition process_row :: "nat \<Rightarrow> parse_state \<Rightarrow> string list \<Rightarrow> py_error + parse_state" where
  \<comment> \<open>one turn of \<open>for row in reader\<close>.\<close>
  "process_row lim st row =
     (if length row < 3 then Inr st
      else
        let info = strip (row ! 0); val_a = strip (row ! 1); val_b = strip (row ! 2);
            marker = (if length row > 3 then strip (row ! 3) else [])
        in
        bind_err (Inr (mark_row st info val_a val_b marker)) (\<lambda>st1.
        bind_err (if substring_in ''Total # of shared variables'' info
                  then try_shared lim (\<lambda>v s. s\<lparr>var_shared := v\<rparr>) val_a val_b st1
                  else Inr st1) (\<lambda>st2.
        bind_err (if substring_in ''Total # of non-shared variables'' info
                  then try_non_shared lim (\<lambda>v s. s\<lparr>var_left := v\<rparr>)
                         (\<lambda>v s. s\<lparr>var_right := v\<rparr>) val_a val_b st2
                  else Inr st2) (\<lambda>st3.
        bind_err (if substring_in ''Total # of shared groups'' info
                  then try_shared lim (\<lambda>v s. s\<lparr>grp_shared := v\<rparr>) val_a val_b st3
                  else Inr st3) (\<lambda>st4.
        if substring_in ''Total # of non-shared groups'' info
        then try_non_shared lim (\<lambda>v s. s\<lparr>grp_left := v\<rparr>)
               (\<lambda>v s. s\<lparr>grp_right := v\<rparr>) val_a val_b st4
        else Inr st4)))))"

fun rows_loop :: "nat \<Rightarrow> parse_state \<Rightarrow> string list list \<Rightarrow> py_error + parse_state" where
  "rows_loop lim st [] = Inr st"
| "rows_loop lim st (row # rows) =
     (case process_row lim st row of
        Inl e \<Rightarrow> Inl e
      | Inr st' \<Rightarrow> rows_loop lim st' rows)"

type_synonym parse_result =
  "int \<times> int \<times> int \<times> int \<times> int \<times> int \<times> int \<times> (string \<times> string \<times> string) list"

definition parse_csv_for_summary_and_diffs ::
  "nat \<Rightarrow> string list list \<Rightarrow> py_error + parse_result" where
  \<comment> \<open>\<open>header = next(reader, None)\<close> drops the first row when there is one; the seventh
      component returned is \<open>len(details)\<close>.\<close>
  "parse_csv_for_summary_and_diffs lim reader =
     (case rows_loop lim initial_state (drop 1 reader) of
        Inl e \<Rightarrow> Inl e
      | Inr st \<Rightarrow> Inr (var_left st, var_right st, var_shared st,
                      grp_left st, grp_right st, grp_shared st,
                      int (length (details st)), details st))"


subsection \<open>The rows the parser keeps\<close>

text \<open>
  The words of the specification: a data row is a row after the header with at least three
  columns; it is a detail row when its marker column, the fourth, is there and reads
  \<open>***\<close> once stripped; the detail list holds the stripped first three columns.
\<close>

definition data_rows :: "string list list \<Rightarrow> string list list" where
  "data_rows reader = filter (\<lambda>row. 3 \<le> length row) (drop 1 reader)"

definition marked :: "string list \<Rightarrow> bool" where
  "marked row = (3 < length row \<and> strip (row ! 3) = ''***'')"

definition detail_of :: "string list \<Rightarrow> string \<times> string \<times> string" where
  "detail_of row = (strip (row ! 0), strip (row ! 1), strip (row ! 2))"

definition counts_as_attribute :: "string \<times> string \<times> string \<Rightarrow> bool" where
  \<comment> \<open>the test the specification gives for a detail row that counts as an attribute
      difference.\<close>
  "counts_as_attribute d =
     (fst d \<notin> {''dtype'', ''dimensions'', ''shape'', ''chunksize''}
      \<or> substring_in ''attribute'' (lower (fst d)))"

definition plain_digits :: "nat \<Rightarrow> string \<Rightarrow> bool" where
  \<comment> \<open>a non-empty run of the digits 0..9, short enough for the digit limit.\<close>
  "plain_digits lim v =
     (v \<noteq> [] \<and> list_all ascii_digit v
      \<and> \<not> (640 < length v \<and> 0 < lim \<and> lim < length v))"

text \<open>
  The two expressions the guarded assignments evaluate: the shared counters read
  \<open>int(val_a) if val_a.isdigit() else int(val_b)\<close>, the non-shared ones
  \<open>int(v) if v.isdigit() else 0\<close>.
\<close>

definition chosen :: "nat \<Rightarrow> string \<Rightarrow> string \<Rightarrow> py_error + int" where
  "chosen lim a b = (if isdigit a then py_int lim a else py_int lim b)"

definition digits_or_zero :: "nat \<Rightarrow> string \<Rightarrow> py_error + int" where
  "digits_or_zero lim v = (if isdigit v then py_int lim v else Inr 0)"

subsection \<open>The state after a block, a row, a file\<close>

text \<open>
  None of the guarded assignments lets an exception out, so each has a state it ends in.
  These functions name it; \<open>process_row_eq\<close> and \<open>rows_loop_eq\<close> below show that the
  parser reaches exactly that state.
\<close>

definition after_shared ::
  "nat \<Rightarrow> (int \<Rightarrow> parse_state \<Rightarrow> parse_state) \<Rightarrow> string \<Rightarrow> string \<Rightarrow> parse_state
     \<Rightarrow> parse_state" where
  "after_shared lim assign val_a val_b st =
     (case (if isdigit val_a then py_int lim val_a else py_int lim val_b) of
        Inr v \<Rightarrow> assign v st | Inl e \<Rightarrow> st)"

definition after_non_shared ::
  "nat \<Rightarrow> (int \<Rightarrow> parse_state \<Rightarrow> parse_state) \<Rightarrow> (int \<Rightarrow> parse_state \<Rightarrow> parse_state)
     \<Rightarrow> string \<Rightarrow> string \<Rightarrow> parse_state \<Rightarrow> parse_state" where
  "after_non_shared lim assign_left assign_right val_a val_b st =
     (case (if isdigit val_a then py_int lim val_a else Inr 0) of
        Inl e \<Rightarrow> st
      | Inr l \<Rightarrow>
         (case (if isdigit val_b then py_int lim val_b else Inr 0) of
            Inl e \<Rightarrow> assign_left l st
          | Inr r \<Rightarrow> assign_right r (assign_left l st)))"

definition after_row :: "nat \<Rightarrow> parse_state \<Rightarrow> string list \<Rightarrow> parse_state" where
  "after_row lim st row =
     (if length row < 3 then st
      else
        let info = strip (row ! 0); val_a = strip (row ! 1); val_b = strip (row ! 2);
            marker = (if length row > 3 then strip (row ! 3) else []);
            st1 = mark_row st info val_a val_b marker;
            st2 = (if substring_in ''Total # of shared variables'' info
                   then after_shared lim (\<lambda>v s. s\<lparr>var_shared := v\<rparr>) val_a val_b st1
                   else st1);
            st3 = (if substring_in ''Total # of non-shared variables'' info
                   then after_non_shared lim (\<lambda>v s. s\<lparr>var_left := v\<rparr>)
                          (\<lambda>v s. s\<lparr>var_right := v\<rparr>) val_a val_b st2
                   else st2);
            st4 = (if substring_in ''Total # of shared groups'' info
                   then after_shared lim (\<lambda>v s. s\<lparr>grp_shared := v\<rparr>) val_a val_b st3
                   else st3)
        in if substring_in ''Total # of non-shared groups'' info
           then after_non_shared lim (\<lambda>v s. s\<lparr>grp_left := v\<rparr>)
                  (\<lambda>v s. s\<lparr>grp_right := v\<rparr>) val_a val_b st4
           else st4)"

section \<open>The per-file variable list\<close>

type_synonym variable_entry = "string \<times> string \<times> int"

definition point_count :: "int list \<Rightarrow> int" where
  \<comment> \<open>\<open>count = 1\<close>, then \<open>count *= int(s)\<close> for each \<open>s\<close> of the shape.\<close>
  "point_count shape = foldl (\<lambda>count s. count * s) 1 shape"

function str_nat :: "nat \<Rightarrow> string" where
  "str_nat n =
     (if n < 10 then [''0123456789'' ! n]
      else str_nat (n div 10) @ [''0123456789'' ! (n mod 10)])"
  by pat_completeness auto
termination
  by (relation "measure id") auto

declare str_nat.simps [simp del]

definition str_int :: "int \<Rightarrow> string" where
  "str_int i = (if i < 0 then CHR ''-'' # str_nat (nat (- i)) else str_nat (nat i))"

fun join :: "string \<Rightarrow> string list \<Rightarrow> string" where
  "join sep [] = []"
| "join sep [x] = x"
| "join sep (x # y # ys) = x @ sep @ join sep (y # ys)"

definition str_tuple :: "int list \<Rightarrow> string" where
  \<comment> \<open>\<open>str(shape)\<close> of a tuple of ints: \<open>()\<close>, \<open>(3,)\<close>, \<open>(3, 4)\<close>.\<close>
  "str_tuple shape =
     (case shape of
        [] \<Rightarrow> ''()''
      | [x] \<Rightarrow> ''('' @ str_int x @ '',)''
      | _ \<Rightarrow> ''('' @ join '', '' (map str_int shape) @ '')'')"

text \<open>
  An opened file as the getters show it. A variable is what \<open>getattr(var, "shape", ())\<close>
  reads from it: its shape, or nothing when it has no such attribute. Every lookup can
  raise.
\<close>

datatype variable = Variable (shape_attr: "int list option")

record group =
  grp_variable_names :: "py_error + string list"
  grp_variable :: "string \<Rightarrow> py_error + variable"

record dataset =
  ds_variable_names :: "py_error + string list"
  ds_variable :: "string \<Rightarrow> py_error + variable"
  ds_root_groups :: "py_error + string list"
  ds_group :: "string \<Rightarrow> py_error + group"

fun collect_vars ::
  "(string \<Rightarrow> py_error + variable) \<Rightarrow> string \<Rightarrow> string list \<Rightarrow> variable_entry list
     \<Rightarrow> py_error option \<times> variable_entry list" where
  \<comment> \<open>\<open>for vname in ...\<close>: the entries appended before a lookup raises stay in \<open>result\<close>.\<close>
  "collect_vars lookup pre [] result = (None, result)"
| "collect_vars lookup pre (vname # rest) result =
     (case lookup vname of
        Inl e \<Rightarrow> (Some e, result)
      | Inr var \<Rightarrow>
          (let shape = (case shape_attr var of None \<Rightarrow> [] | Some s \<Rightarrow> s);
               shape_str = str_tuple shape;
               count = point_count shape
           in collect_vars lookup pre rest (result @ [(pre @ vname, shape_str, count)])))"

fun collect_groups ::
  "dataset \<Rightarrow> string list \<Rightarrow> variable_entry list \<Rightarrow> py_error + variable_entry list" where
  \<comment> \<open>\<open>for gname in get_root_groups(file_obj)\<close> with its
      \<open>except (KeyError, TypeError): continue\<close>.\<close>
  "collect_groups ds [] result = Inr result"
| "collect_groups ds (gname # rest) result =
     (case ds_group ds gname of
        Inl e \<Rightarrow> (if e = KeyError \<or> e = TypeError then collect_groups ds rest result
                  else Inl e)
      | Inr grp \<Rightarrow>
          (case grp_variable_names grp of
             Inl e \<Rightarrow> (if e = KeyError \<or> e = TypeError then collect_groups ds rest result
                       else Inl e)
           | Inr subvars \<Rightarrow>
               (case collect_vars (grp_variable grp) (gname @ ''/'') subvars result of
                  (None, result') \<Rightarrow> collect_groups ds rest result'
                | (Some e, result') \<Rightarrow>
                    (if e = KeyError \<or> e = TypeError then collect_groups ds rest result'
                     else Inl e))))"

definition collect_variables_with_shapes ::
  "('f \<Rightarrow> py_error + dataset) \<Rightarrow> 'f \<Rightarrow> py_error + variable_entry list" where
  "collect_variables_with_shapes opener file_obj =
     bind_err (opener file_obj) (\<lambda>ds.
     bind_err (ds_variable_names ds) (\<lambda>vars_root.
       (case collect_vars (ds_variable ds) [] vars_root [] of
          (Some e, result) \<Rightarrow> Inl e
        | (None, result) \<Rightarrow>
            bind_err (ds_root_groups ds) (\<lambda>gnames. collect_groups ds gnames result))))"

subsection \<open>The variables a collection visits\<close>

text \<open>
  The words of the specification: the variable list holds, for each variable collected,
  its name, the description of its shape and the product of the lengths of its shape.
  The variables collected under a list of names are those looked up, in order, until a
  lookup raises; a group whose lookup raises gives none.
\<close>

fun found :: "(string \<Rightarrow> py_error + variable) \<Rightarrow> string list \<Rightarrow> (string \<times> variable) list" where
  "found lookup [] = []"
| "found lookup (vname # rest) =
     (case lookup vname of Inl e \<Rightarrow> [] | Inr var \<Rightarrow> (vname, var) # found lookup rest)"

definition group_found :: "dataset \<Rightarrow> string \<Rightarrow> (string \<times> variable) list" where
  "group_found ds gname =
     (case ds_group ds gname of
        Inl e \<Rightarrow> []
      | Inr grp \<Rightarrow>
          (case grp_variable_names grp of
             Inl e \<Rightarrow> []
           | Inr subvars \<Rightarrow> found (grp_variable grp) subvars))"

definition shape_of :: "variable \<Rightarrow> int list" where
  "shape_of var = (case shape_attr var of None \<Rightarrow> [] | Some s \<Rightarrow> s)"

definition entry_of :: "string \<Rightarrow> string \<times> variable \<Rightarrow> variable_entry" where
  "entry_of pre nv = (pre @ fst nv, str_tuple (shape_of (snd nv)), prod_list (shape_of (snd nv)))"

section \<open>Running a comparison\<close>















subsection \<open>Stand-ins for the outside of a run\<close>

text \<open>
  For running the model: a file with the root variables \<open>t\<close> of shape \<open>(3, 4)\<close> and \<open>b\<close>
  of shape \<open>(7,)\<close> and a group \<open>g\<close> holding a scalar \<open>s\<close>; a path text that drops a
  leading \<open>./\<close>; a file system that is a map from paths to CSV rows; and a comparison
  call that writes the rows \<open>rows\<close> to its \<open>file_csv\<close> and returns \<open>n\<close>.
\<close>

definition sample_dataset :: dataset where
  "sample_dataset =
     \<lparr>ds_variable_names = Inr [''t'', ''b''],
      ds_variable = (\<lambda>v. if v = ''t'' then Inr (Variable (Some [3, 4]))
                         else if v = ''b'' then Inr (Variable (Some [7]))
                         else Inl KeyError),
      ds_root_groups = Inr [''g''],
      ds_group = (\<lambda>g. if g = ''g''
         then Inr \<lparr>grp_variable_names = Inr [''s''],
                   grp_variable = (\<lambda>v. if v = ''s'' then Inr (Variable None)
                                        else Inl KeyError)\<rparr>
         else Inl KeyError)\<rparr>"







section \<open>Properties of the parser\<close>

lemma py_int_ValueError: "py_int lim s = Inl e \<Longrightarrow> e = ValueError"
  by (auto simp: py_int_def Let_def split: if_splits)

lemma try_shared_eq: "try_shared lim f a b st = Inr (after_shared lim f a b st)"
  by (auto simp: try_shared_def after_shared_def split: sum.splits dest: py_int_ValueError)

lemma try_non_shared_eq:
  "try_non_shared lim f g a b st = Inr (after_non_shared lim f g a b st)"
  by (auto simp: try_non_shared_def after_non_shared_def split: sum.splits
           dest: py_int_ValueError)

lemma process_row_eq: "process_row lim st row = Inr (after_row lim st row)"
  by (simp add: process_row_def after_row_def bind_err_def try_shared_eq
        try_non_shared_eq Let_def)

lemma rows_loop_eq: "rows_loop lim st rows = Inr (foldl (after_row lim) st rows)"
  by (induction rows arbitrary: st) (simp_all add: process_row_eq)

lemma parse_eq:
  "parse_csv_for_summary_and_diffs lim reader =
     (let st = foldl (after_row lim) initial_state (drop 1 reader)
      in Inr (var_left st, var_right st, var_shared st, grp_left st, grp_right st,
              grp_shared st, int (length (details st)), details st))"
  by (simp add: parse_csv_for_summary_and_diffs_def rows_loop_eq Let_def)

lemma details_after_shared:
  "(\<And>v s. details (f v s) = details s) \<Longrightarrow> details (after_shared lim f a b st) = details st"
  by (simp add: after_shared_def split: sum.splits)

lemma details_after_non_shared:
  "(\<And>v s. details (f v s) = details s) \<Longrightarrow> (\<And>v s. details (g v s) = details s) \<Longrightarrow>
   details (after_non_shared lim f g a b st) = details st"
  by (simp add: after_non_shared_def split: sum.splits)

lemma details_mark_row:
  "details (mark_row st info a b m) = details st @ (if m = ''***'' then [(info, a, b)] else [])"
  by (simp add: mark_row_def Let_def)

lemma details_after_row:
  "details (after_row lim st row) = details st @ map detail_of (filter marked [row])"
  by (simp add: after_row_def Let_def details_after_shared details_after_non_shared
        details_mark_row marked_def detail_of_def)

lemma details_foldl:
  "details (foldl (after_row lim) st rows) = details st @ map detail_of (filter marked rows)"
proof (induction rows arbitrary: st)
  case Nil
  show ?case by simp
next
  case (Cons row rows)
  have "details (foldl (after_row lim) st (row # rows))
        = details (after_row lim st row) @ map detail_of (filter marked rows)"
    using Cons.IH [of "after_row lim st row"] by simp
  then show ?case by (simp add: details_after_row)
qed

lemmas eval_defs =
  initial_state_def strip_def isspace_def ord_def mark_row_def lower_def lower_char_def
  after_shared_def after_non_shared_def isdigit_def isdigit_char_def py_int_def
  int_space_def ascii_digit_def dec_value_def Let_def

lemma filter_marked_data_rows: "filter marked (data_rows reader) = filter marked (drop 1 reader)"
  by (auto simp: data_rows_def marked_def intro: filter_cong)

lemma after_row_short: "length row < 3 \<Longrightarrow> after_row lim st row = st"
  by (simp add: after_row_def)

lemma foldl_skip_short:
  "foldl (after_row lim) st (filter (\<lambda>row. 3 \<le> length row) rows) = foldl (after_row lim) st rows"
  by (induction rows arbitrary: st) (simp_all add: after_row_short)

text \<open>
  Claim C2. Whatever the rows of the report, the parser returns, and the
  attribute-difference count it returns (the seventh component) is the length of the
  detail list it returns (the eighth); so the count never exceeds the number of detail
  rows, whatever their descriptions.
\<close>

theorem attr_count_is_detail_count:
  "\<exists>vl vr vs gl gr gs n ds.
     parse_csv_for_summary_and_diffs lim reader = Inr (vl, vr, vs, gl, gr, gs, n, ds)
     \<and> n = int (length ds) \<and> n \<le> int (length ds)"
  by (simp add: parse_eq Let_def)

theorem attr_count_is_detail_count_witness:
  "parse_csv_for_summary_and_diffs 4300
     [[''Info'', ''File A'', ''File B'', ''Diff''],
      [''dtype'', ''int32'', ''int64'', ''***''],
      [''units'', ''m'', ''km'', ''***'']]
   = Inr (0, 0, 0, 0, 0, 0, 2, [(''dtype'', ''int32'', ''int64''), (''units'', ''m'', ''km'')])"
  using attr_count_is_detail_count [of 4300
     "[[''Info'', ''File A'', ''File B'', ''Diff''],
      [''dtype'', ''int32'', ''int64'', ''***''],
      [''units'', ''m'', ''km'', ''***'']]"]
  by (simp add: parse_eq after_row_def eval_defs)

text \<open>
  Claim C4. For every report, the detail list the parser returns is made of exactly the
  data rows (the rows after the header with at least three columns) whose marker column,
  the fourth, reads \<open>***\<close> once stripped, in file order, each as its stripped first three
  columns; so it is no longer than the list of data rows. A row with no marker column
  (three columns or fewer) adds no detail row.
\<close>

theorem details_are_marked_rows:
  "(\<exists>vl vr vs gl gr gs n ds.
      parse_csv_for_summary_and_diffs lim reader = Inr (vl, vr, vs, gl, gr, gs, n, ds)
      \<and> ds = map detail_of (filter marked (data_rows reader))
      \<and> length ds \<le> length (data_rows reader))
   \<and> (length row \<le> 3 \<longrightarrow>
        (\<exists>st'. process_row lim st row = Inr st' \<and> details st' = details st))"
proof -
  let ?st = "foldl (after_row lim) initial_state (drop 1 reader)"
  have d: "details ?st = map detail_of (filter marked (data_rows reader))"
    by (simp add: details_foldl initial_state_def filter_marked_data_rows)
  have "length (details ?st) \<le> length (data_rows reader)"
    unfolding d by simp
  with d have whole: "\<exists>vl vr vs gl gr gs n ds.
      parse_csv_for_summary_and_diffs lim reader = Inr (vl, vr, vs, gl, gr, gs, n, ds)
      \<and> ds = map detail_of (filter marked (data_rows reader))
      \<and> length ds \<le> length (data_rows reader)"
    by (simp add: parse_eq Let_def)
  have "details (after_row lim st row) = details st" if "length row \<le> 3"
    using that by (simp add: details_after_row marked_def)
  with whole show ?thesis
    by (simp add: process_row_eq)
qed

theorem details_are_marked_rows_witness:
  "(\<exists>vl vr vs gl gr gs n.
      parse_csv_for_summary_and_diffs 4300
        [[''Info'', ''File A'', ''File B'', ''Diff''],
         [''dtype'', ''int32'', ''int64'', ''***''],
         [''shape'', ''(3,)'', ''(3,)''],
         [''x'', ''y''],
         [''units'', ''m'', ''km'', ''***'']]
      = Inr (vl, vr, vs, gl, gr, gs, n,
             [(''dtype'', ''int32'', ''int64''), (''units'', ''m'', ''km'')]))
   \<and> length [''shape'', ''(3,)'', ''(3,)''] \<le> 3
   \<and> (\<exists>st'. process_row 4300 initial_state [''shape'', ''(3,)'', ''(3,)''] = Inr st'
         \<and> details st' = [])"
  using details_are_marked_rows [of 4300
        "[[''Info'', ''File A'', ''File B'', ''Diff''],
         [''dtype'', ''int32'', ''int64'', ''***''],
         [''shape'', ''(3,)'', ''(3,)''],
         [''x'', ''y''],
         [''units'', ''m'', ''km'', ''***'']]" "[''shape'', ''(3,)'', ''(3,)'']" initial_state]
  by (simp add: data_rows_def marked_def detail_of_def strip_def isspace_def ord_def
        initial_state_def)

text \<open>
  Claim C6. A report with no row at all, or with a header row only, gives seven zero
  counters and an empty detail list. A row with fewer than three columns leaves the
  parser's state as it was, so dropping such rows from a report changes nothing in what
  the parser returns.
\<close>

theorem header_only_and_short_rows:
  "parse_csv_for_summary_and_diffs lim [] = Inr (0, 0, 0, 0, 0, 0, 0, [])
   \<and> parse_csv_for_summary_and_diffs lim [header] = Inr (0, 0, 0, 0, 0, 0, 0, [])
   \<and> (length row < 3 \<longrightarrow> process_row lim st row = Inr st)
   \<and> parse_csv_for_summary_and_diffs lim (header # rows)
       = parse_csv_for_summary_and_diffs lim (header # filter (\<lambda>row. 3 \<le> length row) rows)"
  by (simp add: parse_eq Let_def initial_state_def process_row_eq after_row_short
        foldl_skip_short)

theorem header_only_and_short_rows_witness:
  "length [''Total # of shared variables'', ''5''] < 3
   \<and> process_row 4300 initial_state [''Total # of shared variables'', ''5'']
       = Inr initial_state
   \<and> parse_csv_for_summary_and_diffs 4300
        [[''Info'', ''File A'', ''File B'', ''Diff''], [''Total # of shared variables'', ''5'']]
       = Inr (0, 0, 0, 0, 0, 0, 0, [])"
  using header_only_and_short_rows [of 4300 "[''Info'', ''File A'', ''File B'', ''Diff'']"
      "[''Total # of shared variables'', ''5'']" initial_state
      "[[''Total # of shared variables'', ''5'']]"]
  by simp

subsection \<open>Stripping and digit strings\<close>

lemma hd_rev_dropWhile_rev:
  assumes "rev (dropWhile P (rev t)) \<noteq> []"
  shows "hd (rev (dropWhile P (rev t))) = hd t"
proof -
  have "rev (rev t) = rev (takeWhile P (rev t) @ dropWhile P (rev t))"
    by (simp only: takeWhile_dropWhile_id)
  then have "t = rev (dropWhile P (rev t)) @ rev (takeWhile P (rev t))"
    by (simp only: rev_rev_ident rev_append)
  then have "hd t = hd (rev (dropWhile P (rev t)) @ rev (takeWhile P (rev t)))"
    by (rule arg_cong)
  also have "\<dots> = hd (rev (dropWhile P (rev t)))"
    using assms by (rule hd_append2)
  finally show ?thesis by (rule sym)
qed

lemma dropWhile_rev_dropWhile:
  "dropWhile P (rev (dropWhile P (rev (dropWhile P s)))) = rev (dropWhile P (rev (dropWhile P s)))"
proof (cases "rev (dropWhile P (rev (dropWhile P s))) = []")
  case True
  then show ?thesis by (simp only: dropWhile.simps)
next
  case False
  then have "hd (rev (dropWhile P (rev (dropWhile P s)))) = hd (dropWhile P s)"
    by (rule hd_rev_dropWhile_rev)
  moreover have "dropWhile P s \<noteq> []"
  proof
    assume e: "dropWhile P s = []"
    have "rev (dropWhile P (rev (dropWhile P s))) = []"
      by (simp only: e rev.simps dropWhile.simps)
    with False show False by blast
  qed
  then have "\<not> P (hd (dropWhile P s))"
    by (rule hd_dropWhile)
  ultimately have "\<not> P (hd (rev (dropWhile P (rev (dropWhile P s)))))"
    by simp
  then show ?thesis
    by (simp only: dropWhile_eq_self_iff simp_thms)
qed

lemma strip_idem: "strip (strip s) = strip s"
  by (simp only: strip_def rev_rev_ident dropWhile_rev_dropWhile dropWhile_idem)

lemma ascii_digit_not_space: "ascii_digit c \<Longrightarrow> \<not> int_space c"
  by (simp add: ascii_digit_def int_space_def Let_def)

lemma ascii_digit_not_sign:
  "ascii_digit c \<Longrightarrow> c \<noteq> CHR ''_'' \<and> c \<noteq> CHR ''-'' \<and> c \<noteq> CHR ''+''"
  by (auto simp: ascii_digit_def ord_def)

lemma ascii_digit_isdigit: "ascii_digit c \<Longrightarrow> isdigit_char c"
  by (simp add: ascii_digit_def isdigit_char_def Let_def)

lemma digit_groups_all: "v \<noteq> [] \<Longrightarrow> list_all ascii_digit v \<Longrightarrow> digit_groups v"
proof (induction v rule: digit_groups.induct)
  case 1
  then show ?case by simp
next
  case (2 c)
  then show ?case by simp
next
  case (3 c d cs)
  from "3.prems" have c: "ascii_digit c" and d: "ascii_digit d" and rest: "list_all ascii_digit (d # cs)"
    by simp_all
  from d have "d \<noteq> CHR ''_''"
    by (simp add: ascii_digit_not_sign)
  with "3.IH"(2) rest have "digit_groups (d # cs)"
    by simp
  with c \<open>d \<noteq> CHR ''_''\<close> show ?case
    by simp
qed

lemma plain_digits_int:
  assumes "plain_digits lim v"
  shows "isdigit v \<and> py_int lim v = Inr (int (dec_value v))"
proof -
  from assms have ne: "v \<noteq> []" and all: "list_all ascii_digit v"
    and lim: "\<not> (640 < length v \<and> 0 < lim \<and> lim < length v)"
    by (simp_all add: plain_digits_def)
  have h: "ascii_digit (hd v)"
    using ne all by (cases v) simp_all
  have l: "ascii_digit (last v)"
    using ne all by (simp add: list_all_iff)
  have d1: "dropWhile int_space v = v"
    using h by (simp only: dropWhile_eq_self_iff ascii_digit_not_space simp_thms)
  have "\<not> int_space (hd (rev v))"
    using l ne by (simp add: hd_rev ascii_digit_not_space)
  then have d2: "dropWhile int_space (rev v) = rev v"
    by (simp only: dropWhile_eq_self_iff simp_thms)
  have f: "filter (\<lambda>c. c \<noteq> CHR ''_'') v = v"
    using all by (induction v) (simp_all add: ascii_digit_not_sign)
  have s: "hd v \<noteq> CHR ''-''" "hd v \<noteq> CHR ''+''"
    using h by (simp_all add: ascii_digit_not_sign)
  have g: "digit_groups v"
    using ne all by (rule digit_groups_all)
  have "list_all isdigit_char v"
    using all by (induction v) (simp_all add: ascii_digit_isdigit)
  with ne have "isdigit v"
    by (simp add: isdigit_def)
  moreover have "py_int lim v = Inr (int (dec_value v))"
    unfolding py_int_def d1 d2 rev_rev_ident Let_def
    using lim s g by (simp add: f)
  ultimately show ?thesis by simp
qed

subsection \<open>The counters after a row\<close>

lemma frame_after_shared:
  "(\<And>v s. sel (f v s) = sel s) \<Longrightarrow> sel (after_shared lim f a b st) = sel st"
  by (simp add: after_shared_def split: sum.splits)

lemma frame_after_non_shared:
  "(\<And>v s. sel (f v s) = sel s) \<Longrightarrow> (\<And>v s. sel (g v s) = sel s) \<Longrightarrow>
   sel (after_non_shared lim f g a b st) = sel st"
  by (simp add: after_non_shared_def split: sum.splits)

lemma counters_mark_row:
  "var_left (mark_row st i a b m) = var_left st"
  "var_right (mark_row st i a b m) = var_right st"
  "var_shared (mark_row st i a b m) = var_shared st"
  "grp_left (mark_row st i a b m) = grp_left st"
  "grp_right (mark_row st i a b m) = grp_right st"
  "grp_shared (mark_row st i a b m) = grp_shared st"
  by (simp_all add: mark_row_def Let_def)

lemma block_values:
  "var_shared (after_shared lim (\<lambda>v s. s\<lparr>var_shared := v\<rparr>) a b st)
     = (case chosen lim a b of Inr v \<Rightarrow> v | Inl e \<Rightarrow> var_shared st)"
  "grp_shared (after_shared lim (\<lambda>v s. s\<lparr>grp_shared := v\<rparr>) a b st)
     = (case chosen lim a b of Inr v \<Rightarrow> v | Inl e \<Rightarrow> grp_shared st)"
  "var_left (after_non_shared lim (\<lambda>v s. s\<lparr>var_left := v\<rparr>)
               (\<lambda>v s. s\<lparr>var_right := v\<rparr>) a b st)
     = (case digits_or_zero lim a of Inr l \<Rightarrow> l | Inl e \<Rightarrow> var_left st)"
  "var_right (after_non_shared lim (\<lambda>v s. s\<lparr>var_left := v\<rparr>)
                (\<lambda>v s. s\<lparr>var_right := v\<rparr>) a b st)
     = (case digits_or_zero lim a of
          Inl e \<Rightarrow> var_right st
        | Inr l \<Rightarrow> (case digits_or_zero lim b of Inr r \<Rightarrow> r | Inl e \<Rightarrow> var_right st))"
  "grp_left (after_non_shared lim (\<lambda>v s. s\<lparr>grp_left := v\<rparr>)
               (\<lambda>v s. s\<lparr>grp_right := v\<rparr>) a b st)
     = (case digits_or_zero lim a of Inr l \<Rightarrow> l | Inl e \<Rightarrow> grp_left st)"
  "grp_right (after_non_shared lim (\<lambda>v s. s\<lparr>grp_left := v\<rparr>)
                (\<lambda>v s. s\<lparr>grp_right := v\<rparr>) a b st)
     = (case digits_or_zero lim a of
          Inl e \<Rightarrow> grp_right st
        | Inr l \<Rightarrow> (case digits_or_zero lim b of Inr r \<Rightarrow> r | Inl e \<Rightarrow> grp_right st))"
  by (simp_all add: after_shared_def after_non_shared_def chosen_def digits_or_zero_def
        split: sum.splits)

lemma var_shared_after_row:
  "3 \<le> length row \<Longrightarrow>
   var_shared (after_row lim st row) =
     (if substring_in ''Total # of shared variables'' (strip (row ! 0))
      then (case chosen lim (strip (row ! 1)) (strip (row ! 2)) of
              Inr v \<Rightarrow> v | Inl e \<Rightarrow> var_shared st)
      else var_shared st)"
  by (simp add: after_row_def Let_def counters_mark_row block_values
        frame_after_shared [where sel = var_shared] frame_after_non_shared [where sel = var_shared]
        cong: sum.case_cong)

lemma grp_shared_after_row:
  "3 \<le> length row \<Longrightarrow>
   grp_shared (after_row lim st row) =
     (if substring_in ''Total # of shared groups'' (strip (row ! 0))
      then (case chosen lim (strip (row ! 1)) (strip (row ! 2)) of
              Inr v \<Rightarrow> v | Inl e \<Rightarrow> grp_shared st)
      else grp_shared st)"
  by (simp add: after_row_def Let_def counters_mark_row block_values
        frame_after_shared [where sel = grp_shared] frame_after_non_shared [where sel = grp_shared]
        cong: sum.case_cong)

lemma var_left_after_row:
  "3 \<le> length row \<Longrightarrow>
   var_left (after_row lim st row) =
     (if substring_in ''Total # of non-shared variables'' (strip (row ! 0))
      then (case digits_or_zero lim (strip (row ! 1)) of
              Inr l \<Rightarrow> l | Inl e \<Rightarrow> var_left st)
      else var_left st)"
  by (simp add: after_row_def Let_def counters_mark_row block_values
        frame_after_shared [where sel = var_left] frame_after_non_shared [where sel = var_left]
        cong: sum.case_cong)

lemma var_right_after_row:
  "3 \<le> length row \<Longrightarrow>
   var_right (after_row lim st row) =
     (if substring_in ''Total # of non-shared variables'' (strip (row ! 0))
      then (case digits_or_zero lim (strip (row ! 1)) of
              Inl e \<Rightarrow> var_right st
            | Inr l \<Rightarrow> (case digits_or_zero lim (strip (row ! 2)) of
                          Inr r \<Rightarrow> r | Inl e \<Rightarrow> var_right st))
      else var_right st)"
  by (simp add: after_row_def Let_def counters_mark_row block_values
        frame_after_shared [where sel = var_right] frame_after_non_shared [where sel = var_right]
        cong: sum.case_cong)

lemma grp_left_after_row:
  "3 \<le> length row \<Longrightarrow>
   grp_left (after_row lim st row) =
     (if substring_in ''Total # of non-shared groups'' (strip (row ! 0))
      then (case digits_or_zero lim (strip (row ! 1)) of
              Inr l \<Rightarrow> l | Inl e \<Rightarrow> grp_left st)
      else grp_left st)"
  by (simp add: after_row_def Let_def counters_mark_row block_values
        frame_after_shared [where sel = grp_left] frame_after_non_shared [where sel = grp_left]
        cong: sum.case_cong)

lemma grp_right_after_row:
  "3 \<le> length row \<Longrightarrow>
   grp_right (after_row lim st row) =
     (if substring_in ''Total # of non-shared groups'' (strip (row ! 0))
      then (case digits_or_zero lim (strip (row ! 1)) of
              Inl e \<Rightarrow> grp_right st
            | Inr l \<Rightarrow> (case digits_or_zero lim (strip (row ! 2)) of
                          Inr r \<Rightarrow> r | Inl e \<Rightarrow> grp_right st))
      else grp_right st)"
  by (simp add: after_row_def Let_def counters_mark_row block_values
        frame_after_shared [where sel = grp_right] frame_after_non_shared [where sel = grp_right]
        cong: sum.case_cong)

lemma digits_or_zero_plain:
  "plain_digits lim v \<Longrightarrow> digits_or_zero lim v = Inr (int (dec_value v))"
  by (simp add: digits_or_zero_def plain_digits_int)

lemma digits_or_zero_other: "\<not> isdigit v \<Longrightarrow> digits_or_zero lim v = Inr 0"
  by (simp add: digits_or_zero_def)

lemma chosen_plain: "plain_digits lim a \<Longrightarrow> chosen lim a b = Inr (int (dec_value a))"
  by (simp add: chosen_def plain_digits_int)

lemma chosen_other: "\<not> isdigit a \<Longrightarrow> chosen lim a b = py_int lim b"
  by (simp add: chosen_def)

lemma process_row_map_strip: "process_row lim st (map strip row) = process_row lim st row"
proof (cases "length row < 3")
  case True
  then show ?thesis by (simp add: process_row_def)
next
  case False
  then have "0 < length row" "1 < length row" "2 < length row"
    by arith+
  then have cols: "map strip row ! 0 = strip (row ! 0)" "map strip row ! 1 = strip (row ! 1)"
      "map strip row ! 2 = strip (row ! 2)"
    by (simp_all only: nth_map)
  have marker: "map strip row ! 3 = strip (row ! 3)" if "3 < length row"
    using that by (simp only: nth_map)
  show ?thesis
  proof (cases "3 < length row")
    case True
    with False show ?thesis
      by (simp only: process_row_def length_map cols marker [OF True] strip_idem)
  next
    case no_marker: False
    with False show ?thesis
      by (simp only: process_row_def length_map cols strip_idem if_False)
  qed
qed

text \<open>
  Claim C10. The parser strips the description, value and marker columns before it
  compares or stores them: what a row does to the state is what the row of its stripped
  columns does; a marker column that reads \<open>***\<close> once stripped makes a detail row, and
  the detail row stored holds the stripped strings, as for the row
  \<open>(" dtype ", "int32  ", "  int64", " *** ")\<close>.
\<close>

theorem columns_are_stripped:
  "process_row lim st (map strip row) = process_row lim st row
   \<and> (3 < length row \<and> strip (row ! 3) = ''***'' \<longrightarrow>
        (\<exists>st'. process_row lim st row = Inr st'
           \<and> details st' = details st @ [(strip (row ! 0), strip (row ! 1), strip (row ! 2))]))
   \<and> parse_csv_for_summary_and_diffs lim
        [header, ['' dtype '', ''int32  '', ''  int64'', '' *** '']]
       = Inr (0, 0, 0, 0, 0, 0, 1, [(''dtype'', ''int32'', ''int64'')])"
proof (intro conjI)
  show "process_row lim st (map strip row) = process_row lim st row"
    by (rule process_row_map_strip)
  have "details (after_row lim st row)
        = details st @ [(strip (row ! 0), strip (row ! 1), strip (row ! 2))]"
    if "3 < length row \<and> strip (row ! 3) = ''***''"
    using that by (simp add: details_after_row marked_def detail_of_def)
  then show "3 < length row \<and> strip (row ! 3) = ''***'' \<longrightarrow>
        (\<exists>st'. process_row lim st row = Inr st'
           \<and> details st' = details st @ [(strip (row ! 0), strip (row ! 1), strip (row ! 2))])"
    by (simp add: process_row_eq)
  show "parse_csv_for_summary_and_diffs lim
        [header, ['' dtype '', ''int32  '', ''  int64'', '' *** '']]
       = Inr (0, 0, 0, 0, 0, 0, 1, [(''dtype'', ''int32'', ''int64'')])"
    by (simp add: parse_eq after_row_def eval_defs)
qed

theorem columns_are_stripped_witness:
  "3 < length [''units '', '' m'', ''km'', '' ***'']
   \<and> strip ([''units '', '' m'', ''km'', '' ***''] ! 3) = ''***''
   \<and> (\<exists>st'. process_row 4300 initial_state [''units '', '' m'', ''km'', '' ***''] = Inr st'
         \<and> details st' = [(''units'', ''m'', ''km'')])"
  using columns_are_stripped [of 4300 initial_state "[''units '', '' m'', ''km'', '' ***'']"]
  by (simp add: strip_def isspace_def ord_def initial_state_def)

subsection \<open>Counts and counters\<close>


text \<open>
  Claim C1 reads the attribute-difference count as the number of detail rows whose
  description is not one of \<open>dtype\<close>, \<open>dimensions\<close>, \<open>shape\<close>, \<open>chunksize\<close> or
  contains \<open>attribute\<close>. The loop keeps that number in \<open>attr_diffs\<close>, but the parser
  returns \<open>len(details)\<close> in its place: on a report whose only marked row is described
  \<open>dtype\<close>, no detail row passes the test and \<open>attr_diffs\<close> ends at 0, while the count
  returned is 1.
\<close>

theorem attr_count_counts_structural_rows:
  "parse_csv_for_summary_and_diffs 4300
     [[''Info'', ''File A'', ''File B'', ''Diff''], [''dtype'', ''int32'', ''int64'', ''***'']]
   = Inr (0, 0, 0, 0, 0, 0, 1, [(''dtype'', ''int32'', ''int64'')])
   \<and> length (filter counts_as_attribute [(''dtype'', ''int32'', ''int64'')]) = 0
   \<and> (\<exists>st. rows_loop 4300 initial_state [[''dtype'', ''int32'', ''int64'', ''***'']] = Inr st
         \<and> attr_diffs st = 0)"
  by (simp add: parse_eq rows_loop_eq after_row_def counts_as_attribute_def eval_defs)

text \<open>
  Claim C3 as stated fails on the non-shared counters: after a row that sets them to 3
  and 2, a row whose values \<open>x\<close> and \<open>y\<close> are no integers does not keep 3 and 2 but sets
  both to 0.
\<close>

theorem unparsed_value_resets_non_shared:
  "py_int 4300 ''x'' = Inl ValueError
   \<and> py_int 4300 ''y'' = Inl ValueError
   \<and> parse_csv_for_summary_and_diffs 4300
       [[''Info'', ''File A'', ''File B'', ''Diff''],
        [''Total # of non-shared variables'', ''3'', ''2'', '''']]
     = Inr (3, 2, 0, 0, 0, 0, 0, [])
   \<and> parse_csv_for_summary_and_diffs 4300
       [[''Info'', ''File A'', ''File B'', ''Diff''],
        [''Total # of non-shared variables'', ''3'', ''2'', ''''],
        [''Total # of non-shared variables'', ''x'', ''y'', '''']]
     = Inr (0, 0, 0, 0, 0, 0, 0, [])"
  by (simp add: parse_eq after_row_def eval_defs)

text \<open>
  Claim C5 as stated fails on a value that \<open>isdigit()\<close> accepts and \<open>int()\<close> rejects,
  such as the superscript two: the shared count is then set neither from value_a nor from
  value_b, and an only-in-B count is left at its earlier value 4 rather than set to 0.
\<close>

theorem digit_string_that_is_no_integer:
  "isdigit [CHR 0xB2]
   \<and> py_int 4300 [CHR 0xB2] = Inl ValueError
   \<and> py_int 4300 ''7'' = Inr 7
   \<and> parse_csv_for_summary_and_diffs 4300
       [[''Info'', ''File A'', ''File B'', ''Diff''],
        [''Total # of shared variables'', [CHR 0xB2], ''7'', '''']]
     = Inr (0, 0, 0, 0, 0, 0, 0, [])
   \<and> parse_csv_for_summary_and_diffs 4300
       [[''Info'', ''File A'', ''File B'', ''Diff''],
        [''Total # of non-shared variables'', ''1'', ''4'', ''''],
        [''Total # of non-shared variables'', ''3'', [CHR 0xB2], '''']]
     = Inr (3, 4, 0, 0, 0, 0, 0, [])"
  by (simp add: parse_eq after_row_def eval_defs)

text \<open>
  Claim C3, amended. The parser returns on every report, and every row leaves a state:
  malformed numeric text raises nothing. When the value a shared counter reads (value_a
  if \<open>value_a.isdigit()\<close>, else value_b) fails \<open>int()\<close>, both shared counters keep their
  prior values. When a value passes \<open>isdigit()\<close> and fails \<open>int()\<close>, the non-shared
  counters it feeds keep their prior values (value_a: all four; value_b: the only-in-B
  ones). When neither value is a digit string, a row described as a non-shared total does
  not keep the prior values: it sets both of its counters to 0.
\<close>

theorem unparsed_values:
  "(\<exists>r. parse_csv_for_summary_and_diffs lim reader = Inr r)
   \<and> (\<exists>st'. process_row lim st row = Inr st'
        \<and> (3 \<le> length row \<and> chosen lim (strip (row ! 1)) (strip (row ! 2)) = Inl ValueError
             \<longrightarrow> var_shared st' = var_shared st \<and> grp_shared st' = grp_shared st)
        \<and> (3 \<le> length row \<and> digits_or_zero lim (strip (row ! 1)) = Inl ValueError
             \<longrightarrow> var_left st' = var_left st \<and> var_right st' = var_right st
                 \<and> grp_left st' = grp_left st \<and> grp_right st' = grp_right st)
        \<and> (3 \<le> length row \<and> digits_or_zero lim (strip (row ! 2)) = Inl ValueError
             \<longrightarrow> var_right st' = var_right st \<and> grp_right st' = grp_right st)
        \<and> (3 \<le> length row \<and> \<not> isdigit (strip (row ! 1)) \<and> \<not> isdigit (strip (row ! 2))
             \<longrightarrow> (substring_in ''Total # of non-shared variables'' (strip (row ! 0))
                    \<longrightarrow> var_left st' = 0 \<and> var_right st' = 0)
                 \<and> (substring_in ''Total # of non-shared groups'' (strip (row ! 0))
                    \<longrightarrow> grp_left st' = 0 \<and> grp_right st' = 0)))"
proof (intro conjI)
  show "\<exists>r. parse_csv_for_summary_and_diffs lim reader = Inr r"
    by (simp add: parse_eq Let_def)
  let ?st' = "after_row lim st row"
  have shared: "var_shared ?st' = var_shared st \<and> grp_shared ?st' = grp_shared st"
    if "3 \<le> length row \<and> chosen lim (strip (row ! 1)) (strip (row ! 2)) = Inl ValueError"
    using that by (simp add: var_shared_after_row grp_shared_after_row)
  have first: "var_left ?st' = var_left st \<and> var_right ?st' = var_right st
                 \<and> grp_left ?st' = grp_left st \<and> grp_right ?st' = grp_right st"
    if "3 \<le> length row \<and> digits_or_zero lim (strip (row ! 1)) = Inl ValueError"
    using that by (simp add: var_left_after_row var_right_after_row grp_left_after_row
        grp_right_after_row)
  have second: "var_right ?st' = var_right st \<and> grp_right ?st' = grp_right st"
    if "3 \<le> length row \<and> digits_or_zero lim (strip (row ! 2)) = Inl ValueError"
    using that by (simp add: var_right_after_row grp_right_after_row split: sum.splits)
  have reset: "(substring_in ''Total # of non-shared variables'' (strip (row ! 0))
                    \<longrightarrow> var_left ?st' = 0 \<and> var_right ?st' = 0)
                 \<and> (substring_in ''Total # of non-shared groups'' (strip (row ! 0))
                    \<longrightarrow> grp_left ?st' = 0 \<and> grp_right ?st' = 0)"
    if "3 \<le> length row \<and> \<not> isdigit (strip (row ! 1)) \<and> \<not> isdigit (strip (row ! 2))"
    using that by (simp add: var_left_after_row var_right_after_row grp_left_after_row
        grp_right_after_row digits_or_zero_other)
  from shared first second reset
  show "\<exists>st'. process_row lim st row = Inr st'
        \<and> (3 \<le> length row \<and> chosen lim (strip (row ! 1)) (strip (row ! 2)) = Inl ValueError
             \<longrightarrow> var_shared st' = var_shared st \<and> grp_shared st' = grp_shared st)
        \<and> (3 \<le> length row \<and> digits_or_zero lim (strip (row ! 1)) = Inl ValueError
             \<longrightarrow> var_left st' = var_left st \<and> var_right st' = var_right st
                 \<and> grp_left st' = grp_left st \<and> grp_right st' = grp_right st)
        \<and> (3 \<le> length row \<and> digits_or_zero lim (strip (row ! 2)) = Inl ValueError
             \<longrightarrow> var_right st' = var_right st \<and> grp_right st' = grp_right st)
        \<and> (3 \<le> length row \<and> \<not> isdigit (strip (row ! 1)) \<and> \<not> isdigit (strip (row ! 2))
             \<longrightarrow> (substring_in ''Total # of non-shared variables'' (strip (row ! 0))
                    \<longrightarrow> var_left st' = 0 \<and> var_right st' = 0)
                 \<and> (substring_in ''Total # of non-shared groups'' (strip (row ! 0))
                    \<longrightarrow> grp_left st' = 0 \<and> grp_right st' = 0))"
    unfolding process_row_eq by blast
qed

theorem unparsed_values_witness:
  "3 \<le> length [''Total # of shared variables'', [CHR 0xB2], [CHR 0xB3], '''']
   \<and> chosen 4300 [CHR 0xB2] [CHR 0xB3] = Inl ValueError
   \<and> digits_or_zero 4300 [CHR 0xB2] = Inl ValueError
   \<and> digits_or_zero 4300 [CHR 0xB3] = Inl ValueError
   \<and> (\<exists>st'. process_row 4300 (initial_state\<lparr>var_shared := 5, var_right := 2\<rparr>)
               [''Total # of shared variables'', [CHR 0xB2], [CHR 0xB3], ''''] = Inr st'
          \<and> var_shared st' = 5 \<and> var_right st' = 2)
   \<and> \<not> isdigit ''x'' \<and> \<not> isdigit ''y''
   \<and> chosen 4300 ''x'' ''y'' = Inl ValueError
   \<and> (\<exists>st'. process_row 4300 (initial_state\<lparr>var_shared := 5, var_left := 3\<rparr>)
               [''Total # of shared variables, Total # of non-shared variables'',
                ''x'', ''y'', ''''] = Inr st'
          \<and> var_shared st' = 5 \<and> var_left st' = 0)
   \<and> parse_csv_for_summary_and_diffs 4300
        [[''Info'', ''File A'', ''File B'', ''Diff''],
         [''Total # of shared variables'', ''5'', '''', ''''],
         [''Total # of shared variables'', ''x'', ''y'', '''']]
       = Inr (0, 0, 5, 0, 0, 0, 0, [])"
  using unparsed_values [of 4300 "[]" "initial_state\<lparr>var_shared := 5, var_right := 2\<rparr>"
      "[''Total # of shared variables'', [CHR 0xB2], [CHR 0xB3], '''']"]
    unparsed_values [of 4300 "[]" "initial_state\<lparr>var_shared := 5, var_left := 3\<rparr>"
      "[''Total # of shared variables, Total # of non-shared variables'', ''x'', ''y'', '''']"]
  by (auto simp: chosen_def digits_or_zero_def parse_eq after_row_def eval_defs)

text \<open>
  Claim C5, amended. For a row of at least three columns whose stripped description
  contains \<open>Total # of shared variables\<close>: when the stripped value_a is a non-empty run
  of the digits 0..9 (within the interpreter's digit limit) the shared-variable count
  becomes its decimal value; when value_a is no digit string (\<open>isdigit()\<close> false) and
  \<open>int(value_b)\<close> is \<open>v\<close>, it becomes \<open>v\<close>. For \<open>Total # of non-shared variables\<close>:
  only-in-A becomes the decimal value of value_a when that is such a run of digits and 0
  when value_a is no digit string; in both cases only-in-B becomes the decimal value of
  value_b, or 0 when value_b is no digit string. The group rows do the same to the group
  counters. (Examples of the claim: value_a \<open>5\<close> gives a shared count of 5; values \<open>3\<close>
  and \<open>2\<close> give only-in-A 3 and only-in-B 2.)
\<close>

theorem counters_from_total_rows:
  "\<exists>st'. process_row lim st row = Inr st'
     \<and> (3 \<le> length row
          \<and> substring_in ''Total # of shared variables'' (strip (row ! 0)) \<longrightarrow>
            (plain_digits lim (strip (row ! 1))
               \<longrightarrow> var_shared st' = int (dec_value (strip (row ! 1))))
          \<and> (\<not> isdigit (strip (row ! 1)) \<and> py_int lim (strip (row ! 2)) = Inr v
               \<longrightarrow> var_shared st' = v))
     \<and> (3 \<le> length row
          \<and> substring_in ''Total # of non-shared variables'' (strip (row ! 0)) \<longrightarrow>
            (plain_digits lim (strip (row ! 1))
               \<longrightarrow> var_left st' = int (dec_value (strip (row ! 1))))
          \<and> (\<not> isdigit (strip (row ! 1)) \<longrightarrow> var_left st' = 0)
          \<and> (plain_digits lim (strip (row ! 1)) \<or> \<not> isdigit (strip (row ! 1)) \<longrightarrow>
               (plain_digits lim (strip (row ! 2))
                  \<longrightarrow> var_right st' = int (dec_value (strip (row ! 2))))
               \<and> (\<not> isdigit (strip (row ! 2)) \<longrightarrow> var_right st' = 0)))
     \<and> (3 \<le> length row
          \<and> substring_in ''Total # of shared groups'' (strip (row ! 0)) \<longrightarrow>
            (plain_digits lim (strip (row ! 1))
               \<longrightarrow> grp_shared st' = int (dec_value (strip (row ! 1))))
          \<and> (\<not> isdigit (strip (row ! 1)) \<and> py_int lim (strip (row ! 2)) = Inr v
               \<longrightarrow> grp_shared st' = v))
     \<and> (3 \<le> length row
          \<and> substring_in ''Total # of non-shared groups'' (strip (row ! 0)) \<longrightarrow>
            (plain_digits lim (strip (row ! 1))
               \<longrightarrow> grp_left st' = int (dec_value (strip (row ! 1))))
          \<and> (\<not> isdigit (strip (row ! 1)) \<longrightarrow> grp_left st' = 0)
          \<and> (plain_digits lim (strip (row ! 1)) \<or> \<not> isdigit (strip (row ! 1)) \<longrightarrow>
               (plain_digits lim (strip (row ! 2))
                  \<longrightarrow> grp_right st' = int (dec_value (strip (row ! 2))))
               \<and> (\<not> isdigit (strip (row ! 2)) \<longrightarrow> grp_right st' = 0)))"
proof -
  let ?st' = "after_row lim st row"
  let ?a = "strip (row ! 1)" and ?b = "strip (row ! 2)"
  have settled: "\<exists>l. digits_or_zero lim ?a = Inr l"
    if "plain_digits lim ?a \<or> \<not> isdigit ?a"
    using that digits_or_zero_plain [of lim ?a] digits_or_zero_other [of ?a lim]
    by blast
  have vs: "3 \<le> length row
          \<and> substring_in ''Total # of shared variables'' (strip (row ! 0)) \<longrightarrow>
            (plain_digits lim ?a \<longrightarrow> var_shared ?st' = int (dec_value ?a))
          \<and> (\<not> isdigit ?a \<and> py_int lim ?b = Inr v \<longrightarrow> var_shared ?st' = v)"
    by (simp add: var_shared_after_row chosen_plain chosen_other)
  have gs: "3 \<le> length row
          \<and> substring_in ''Total # of shared groups'' (strip (row ! 0)) \<longrightarrow>
            (plain_digits lim ?a \<longrightarrow> grp_shared ?st' = int (dec_value ?a))
          \<and> (\<not> isdigit ?a \<and> py_int lim ?b = Inr v \<longrightarrow> grp_shared ?st' = v)"
    by (simp add: grp_shared_after_row chosen_plain chosen_other)
  have vl: "(plain_digits lim ?a \<longrightarrow> var_left ?st' = int (dec_value ?a))
          \<and> (\<not> isdigit ?a \<longrightarrow> var_left ?st' = 0)"
    if "3 \<le> length row \<and> substring_in ''Total # of non-shared variables'' (strip (row ! 0))"
    using that by (simp add: var_left_after_row digits_or_zero_plain digits_or_zero_other)
  have vr: "(plain_digits lim ?b \<longrightarrow> var_right ?st' = int (dec_value ?b))
          \<and> (\<not> isdigit ?b \<longrightarrow> var_right ?st' = 0)"
    if m: "3 \<le> length row \<and> substring_in ''Total # of non-shared variables'' (strip (row ! 0))"
      and a: "plain_digits lim ?a \<or> \<not> isdigit ?a"
  proof -
    from settled [OF a] obtain l where "digits_or_zero lim ?a = Inr l" ..
    with m show ?thesis
      by (simp add: var_right_after_row digits_or_zero_plain digits_or_zero_other)
  qed
  have gl: "(plain_digits lim ?a \<longrightarrow> grp_left ?st' = int (dec_value ?a))
          \<and> (\<not> isdigit ?a \<longrightarrow> grp_left ?st' = 0)"
    if "3 \<le> length row \<and> substring_in ''Total # of non-shared groups'' (strip (row ! 0))"
    using that by (simp add: grp_left_after_row digits_or_zero_plain digits_or_zero_other)
  have gr: "(plain_digits lim ?b \<longrightarrow> grp_right ?st' = int (dec_value ?b))
          \<and> (\<not> isdigit ?b \<longrightarrow> grp_right ?st' = 0)"
    if m: "3 \<le> length row \<and> substring_in ''Total # of non-shared groups'' (strip (row ! 0))"
      and a: "plain_digits lim ?a \<or> \<not> isdigit ?a"
  proof -
    from settled [OF a] obtain l where "digits_or_zero lim ?a = Inr l" ..
    with m show ?thesis
      by (simp add: grp_right_after_row digits_or_zero_plain digits_or_zero_other)
  qed
  have "(3 \<le> length row
          \<and> substring_in ''Total # of shared variables'' (strip (row ! 0)) \<longrightarrow>
            (plain_digits lim ?a \<longrightarrow> var_shared ?st' = int (dec_value ?a))
          \<and> (\<not> isdigit ?a \<and> py_int lim ?b = Inr v \<longrightarrow> var_shared ?st' = v))
     \<and> (3 \<le> length row
          \<and> substring_in ''Total # of non-shared variables'' (strip (row ! 0)) \<longrightarrow>
            (plain_digits lim ?a \<longrightarrow> var_left ?st' = int (dec_value ?a))
          \<and> (\<not> isdigit ?a \<longrightarrow> var_left ?st' = 0)
          \<and> (plain_digits lim ?a \<or> \<not> isdigit ?a \<longrightarrow>
               (plain_digits lim ?b \<longrightarrow> var_right ?st' = int (dec_value ?b))
               \<and> (\<not> isdigit ?b \<longrightarrow> var_right ?st' = 0)))
     \<and> (3 \<le> length row
          \<and> substring_in ''Total # of shared groups'' (strip (row ! 0)) \<longrightarrow>
            (plain_digits lim ?a \<longrightarrow> grp_shared ?st' = int (dec_value ?a))
          \<and> (\<not> isdigit ?a \<and> py_int lim ?b = Inr v \<longrightarrow> grp_shared ?st' = v))
     \<and> (3 \<le> length row
          \<and> substring_in ''Total # of non-shared groups'' (strip (row ! 0)) \<longrightarrow>
            (plain_digits lim ?a \<longrightarrow> grp_left ?st' = int (dec_value ?a))
          \<and> (\<not> isdigit ?a \<longrightarrow> grp_left ?st' = 0)
          \<and> (plain_digits lim ?a \<or> \<not> isdigit ?a \<longrightarrow>
               (plain_digits lim ?b \<longrightarrow> grp_right ?st' = int (dec_value ?b))
               \<and> (\<not> isdigit ?b \<longrightarrow> grp_right ?st' = 0)))"
    using vs gs vl vr gl gr by blast
  then show ?thesis
    by (simp add: process_row_eq)
qed

theorem counters_from_total_rows_witness:
  "3 \<le> length [''Total # of shared variables'', ''5'', '''', '''']
   \<and> substring_in ''Total # of shared variables''
        (strip ([''Total # of shared variables'', ''5'', '''', ''''] ! 0))
   \<and> plain_digits 4300 (strip ([''Total # of shared variables'', ''5'', '''', ''''] ! 1))
   \<and> (\<exists>st'. process_row 4300 initial_state [''Total # of shared variables'', ''5'', '''', '''']
               = Inr st' \<and> var_shared st' = 5)
   \<and> 3 \<le> length [''Total # of non-shared variables'', ''3'', ''2'', '''']
   \<and> substring_in ''Total # of non-shared variables''
        (strip ([''Total # of non-shared variables'', ''3'', ''2'', ''''] ! 0))
   \<and> plain_digits 4300 (strip ([''Total # of non-shared variables'', ''3'', ''2'', ''''] ! 1))
   \<and> plain_digits 4300 (strip ([''Total # of non-shared variables'', ''3'', ''2'', ''''] ! 2))
   \<and> (\<exists>st'. process_row 4300 initial_state
               [''Total # of non-shared variables'', ''3'', ''2'', ''''] = Inr st'
          \<and> var_left st' = 3 \<and> var_right st' = 2)
   \<and> \<not> isdigit (strip ([''Total # of shared groups'', ''n/a'', ''-4'', ''''] ! 1))
   \<and> py_int 4300 (strip ([''Total # of shared groups'', ''n/a'', ''-4'', ''''] ! 2)) = Inr (- 4)
   \<and> (\<exists>st'. process_row 4300 initial_state [''Total # of shared groups'', ''n/a'', ''-4'', '''']
               = Inr st' \<and> grp_shared st' = - 4)
   \<and> parse_csv_for_summary_and_diffs 4300
        [[''Info'', ''File A'', ''File B'', ''Diff''],
         [''Total # of shared variables'', ''5'', '''', '''']]
       = Inr (0, 0, 5, 0, 0, 0, 0, [])
   \<and> parse_csv_for_summary_and_diffs 4300
        [[''Info'', ''File A'', ''File B'', ''Diff''],
         [''Total # of non-shared variables'', ''3'', ''2'', '''']]
       = Inr (3, 2, 0, 0, 0, 0, 0, [])"
  using counters_from_total_rows [of 4300 initial_state
      "[''Total # of shared variables'', ''5'', '''', '''']" 0]
    counters_from_total_rows [of 4300 initial_state
      "[''Total # of non-shared variables'', ''3'', ''2'', '''']" 0]
    counters_from_total_rows [of 4300 initial_state
      "[''Total # of shared groups'', ''n/a'', ''-4'', '''']" "- 4"]
  by (auto simp: plain_digits_def parse_eq after_row_def eval_defs)

section \<open>Properties of the variable list and of a run\<close>

lemma foldl_times: "foldl (\<lambda>count s. count * s) a shape = a * prod_list (shape :: int list)"
  by (induction shape arbitrary: a) (simp_all add: mult.assoc)

lemma point_count_prod: "point_count shape = prod_list shape"
  by (simp add: point_count_def foldl_times)

lemma found_lookup: "(vname, var) \<in> set (found lookup names) \<Longrightarrow> lookup vname = Inr var"
  by (induction names) (auto split: sum.splits)

lemma collect_vars_entries:
  "snd (collect_vars lookup pre names result)
     = result @ map (entry_of pre) (found lookup names)"
proof (induction names arbitrary: result)
  case Nil
  show ?case by simp
next
  case (Cons vname rest)
  show ?case
  proof (cases "lookup vname")
    case (Inl e)
    then show ?thesis by simp
  next
    case (Inr var)
    then show ?thesis
      by (simp add: Cons.IH Let_def entry_of_def shape_of_def point_count_prod)
  qed
qed

lemma collect_vars_all:
  "fst (collect_vars lookup pre names result) = None \<Longrightarrow> map fst (found lookup names) = names"
proof (induction names arbitrary: result)
  case Nil
  show ?case by simp
next
  case (Cons vname rest)
  show ?case
  proof (cases "lookup vname")
    case (Inl e)
    with Cons.prems show ?thesis by simp
  next
    case (Inr var)
    with Cons.prems have "fst (collect_vars lookup pre rest
        (result @ [(pre @ vname, str_tuple (case shape_attr var of None \<Rightarrow> [] | Some s \<Rightarrow> s),
                    point_count (case shape_attr var of None \<Rightarrow> [] | Some s \<Rightarrow> s))])) = None"
      by (simp add: Let_def)
    then have "map fst (found lookup rest) = rest"
      by (rule Cons.IH)
    with Inr show ?thesis by simp
  qed
qed

lemma collect_groups_entries:
  "collect_groups ds gnames result = Inr result' \<Longrightarrow>
   result' = result @ concat (map (\<lambda>g. map (entry_of (g @ ''/'')) (group_found ds g)) gnames)"
proof (induction gnames arbitrary: result)
  case Nil
  then show ?case by simp
next
  case (Cons gname rest)
  show ?case
  proof (cases "ds_group ds gname")
    case (Inl e)
    with Cons.prems have "collect_groups ds rest result = Inr result'"
      by (simp split: if_splits)
    then have "result' = result
        @ concat (map (\<lambda>g. map (entry_of (g @ ''/'')) (group_found ds g)) rest)"
      by (rule Cons.IH)
    with Inl show ?thesis by (simp add: group_found_def)
  next
    case grp: (Inr grp)
    show ?thesis
    proof (cases "grp_variable_names grp")
      case (Inl e)
      with grp Cons.prems have "collect_groups ds rest result = Inr result'"
        by (simp split: if_splits)
      then have "result' = result
          @ concat (map (\<lambda>g. map (entry_of (g @ ''/'')) (group_found ds g)) rest)"
        by (rule Cons.IH)
      with grp Inl show ?thesis by (simp add: group_found_def)
    next
      case (Inr subvars)
      obtain err mid where cv:
        "collect_vars (grp_variable grp) (gname @ ''/'') subvars result = (err, mid)"
        by (cases "collect_vars (grp_variable grp) (gname @ ''/'') subvars result")
      have mid: "mid = result @ map (entry_of (gname @ ''/'')) (found (grp_variable grp) subvars)"
        using collect_vars_entries [of "grp_variable grp" "gname @ ''/''" subvars result] cv
        by simp
      from Cons.prems grp Inr cv have "collect_groups ds rest mid = Inr result'"
        by (simp split: option.splits if_splits)
      then have "result' = mid
          @ concat (map (\<lambda>g. map (entry_of (g @ ''/'')) (group_found ds g)) rest)"
        by (rule Cons.IH)
      with mid grp Inr show ?thesis by (simp add: group_found_def)
    qed
  qed
qed

lemma bind_err_Inr: "bind_err r f = Inr y \<longleftrightarrow> (\<exists>x. r = Inr x \<and> f x = Inr y)"
  by (cases r) (simp_all add: bind_err_def)

lemma collect_entries:
  assumes "collect_variables_with_shapes opener file_obj = Inr result"
  shows "\<exists>ds vars_root gnames.
           opener file_obj = Inr ds \<and> ds_variable_names ds = Inr vars_root
           \<and> ds_root_groups ds = Inr gnames
           \<and> map fst (found (ds_variable ds) vars_root) = vars_root
           \<and> result = map (entry_of []) (found (ds_variable ds) vars_root)
                @ concat (map (\<lambda>g. map (entry_of (g @ ''/'')) (group_found ds g)) gnames)"
proof -
  from assms obtain ds vars_root where ds: "opener file_obj = Inr ds"
    and names: "ds_variable_names ds = Inr vars_root"
    and rest: "(case collect_vars (ds_variable ds) [] vars_root [] of
          (Some e, result) \<Rightarrow> Inl e
        | (None, result) \<Rightarrow>
            bind_err (ds_root_groups ds) (\<lambda>gnames. collect_groups ds gnames result)) = Inr result"
    unfolding collect_variables_with_shapes_def bind_err_Inr by blast
  obtain err root where cv: "collect_vars (ds_variable ds) [] vars_root [] = (err, root)"
    by (cases "collect_vars (ds_variable ds) [] vars_root []")
  from rest cv have none: "err = None"
    by (cases err) simp_all
  have root: "root = map (entry_of []) (found (ds_variable ds) vars_root)"
    using collect_vars_entries [of "ds_variable ds" "[]" vars_root "[]"] cv by simp
  have all: "map fst (found (ds_variable ds) vars_root) = vars_root"
    using collect_vars_all [of "ds_variable ds" "[]" vars_root "[]"] cv none by simp
  from rest cv none obtain gnames where gn: "ds_root_groups ds = Inr gnames"
    and cg: "collect_groups ds gnames root = Inr result"
    by (auto simp: bind_err_Inr)
  from cg have "result = root
      @ concat (map (\<lambda>g. map (entry_of (g @ ''/'')) (group_found ds g)) gnames)"
    by (rule collect_groups_entries)
  with ds names gn all root show ?thesis
    by blast
qed

text \<open>
  Claim C9. The point count computed for a shape is the product of its dimension lengths,
  and 1 for the empty shape of a scalar. A collected variable list is exactly the list
  of entries of the variables visited: every root variable, in the order of the names,
  then for each root group the variables found in it, named \<open>group/variable\<close>. Each
  visited variable is the one its name looks up, and its entry is its name, \<open>str\<close> of
  its own shape and the product of the lengths of its own shape; a variable without a
  shape is entered as \<open>()\<close> with count 1.
\<close>

theorem point_count_is_product:
  "point_count [] = 1
   \<and> point_count shape = prod_list shape
   \<and> (collect_variables_with_shapes opener file_obj = Inr result \<longrightarrow>
        (\<exists>ds vars_root gnames.
           opener file_obj = Inr ds \<and> ds_variable_names ds = Inr vars_root
           \<and> ds_root_groups ds = Inr gnames
           \<and> map fst (found (ds_variable ds) vars_root) = vars_root
           \<and> result = map (entry_of []) (found (ds_variable ds) vars_root)
                @ concat (map (\<lambda>g. map (entry_of (g @ ''/'')) (group_found ds g)) gnames)))
   \<and> ((vname, var) \<in> set (found lookup names) \<longrightarrow> lookup vname = Inr var)
   \<and> entry_of pre (vname, Variable (Some shape))
       = (pre @ vname, str_tuple shape, prod_list shape)
   \<and> entry_of pre (vname, Variable None) = (pre @ vname, ''()'', 1)
   \<and> (lookup vname = Inr (Variable (Some shape)) \<longrightarrow>
        collect_vars lookup pre [vname] entries
          = (None, entries @ [(pre @ vname, str_tuple shape, prod_list shape)]))
   \<and> (lookup vname = Inr (Variable None) \<longrightarrow>
        collect_vars lookup pre [vname] entries = (None, entries @ [(pre @ vname, ''()'', 1)]))"
  using collect_entries [of opener file_obj result] found_lookup [of vname var lookup names]
  by (simp add: point_count_prod entry_of_def shape_of_def str_tuple_def)

lemma collect_sample_dataset:
  "collect_variables_with_shapes (\<lambda>f. Inr sample_dataset) file_obj
     = Inr [(''t'', ''(3, 4)'', 12), (''b'', ''(7,)'', 7), (''g/s'', ''()'', 1)]"
  by (simp add: collect_variables_with_shapes_def bind_err_def sample_dataset_def
        str_tuple_def str_int_def str_nat.simps point_count_def)

theorem point_count_is_product_witness:
  "collect_variables_with_shapes (\<lambda>f. Inr sample_dataset) ''a.nc''
     = Inr [(''t'', ''(3, 4)'', 12), (''b'', ''(7,)'', 7), (''g/s'', ''()'', 1)]
   \<and> found (ds_variable sample_dataset) [''t'', ''b'']
       = [(''t'', Variable (Some [3, 4])), (''b'', Variable (Some [7]))]
   \<and> group_found sample_dataset ''g'' = [(''s'', Variable None)]
   \<and> (''b'', Variable (Some [7])) \<in> set (found (ds_variable sample_dataset) [''t'', ''b''])
   \<and> ds_variable sample_dataset ''b'' = Inr (Variable (Some [7]))
   \<and> entry_of [] (''b'', Variable (Some [7])) = (''b'', ''(7,)'', 7)"
proof -
  have run: "collect_variables_with_shapes (\<lambda>f. Inr sample_dataset) ''a.nc''
     = Inr [(''t'', ''(3, 4)'', 12), (''b'', ''(7,)'', 7), (''g/s'', ''()'', 1)]"
    by (rule collect_sample_dataset)
  have root: "found (ds_variable sample_dataset) [''t'', ''b'']
       = [(''t'', Variable (Some [3, 4])), (''b'', Variable (Some [7]))]"
    by (simp add: sample_dataset_def)
  have grp: "group_found sample_dataset ''g'' = [(''s'', Variable None)]"
    by (simp add: sample_dataset_def group_found_def)
  have mem: "(''b'', Variable (Some [7])) \<in> set (found (ds_variable sample_dataset) [''t'', ''b''])"
    unfolding root by simp
  note inst = point_count_is_product [of "[7]" "\<lambda>f. Inr sample_dataset" "''a.nc''"
      "[(''t'', ''(3, 4)'', 12), (''b'', ''(7,)'', 7), (''g/s'', ''()'', 1)]"
      "''b''" "Variable (Some [7])" "ds_variable sample_dataset" "[''t'', ''b'']" "[]" "[]"]
  from inst mem have look: "ds_variable sample_dataset ''b'' = Inr (Variable (Some [7]))"
    by blast
  from inst have "entry_of [] (''b'', Variable (Some [7])) = ([] @ ''b'', str_tuple [7], prod_list [7])"
    by blast
  then have entry: "entry_of [] (''b'', Variable (Some [7])) = (''b'', ''(7,)'', 7)"
    by (simp add: str_tuple_def str_int_def str_nat.simps)
  from run root grp mem look entry show ?thesis
    by blast
qed












end
